theory Spec2Isabelle
  imports Main "HOL-Library.Word"
begin

section \<open>JavaScript strings\<close>

text \<open>
  A JavaScript string is a sequence of 16-bit code units. The literals of the source are
  ASCII, so \<open>js\<close> maps each character of a HOL string to the code unit with the same number.
\<close>

type_synonym code_unit = "16 word"
type_synonym jsstring = "code_unit list"

definition js :: "string \<Rightarrow> jsstring" where
  "js cs = map (\<lambda>c. of_nat (of_char c)) cs"

text \<open>
  \<open>String.prototype.trim\<close> removes the code units of the ECMAScript productions WhiteSpace
  and LineTerminator from both ends: TAB, LF, VT, FF, CR, SP, NBSP, the Unicode space
  separators, LS, PS and the byte order mark.
\<close>

definition isWhiteSpace :: "code_unit \<Rightarrow> bool" where
  "isWhiteSpace c \<longleftrightarrow>
     c = 0x0009 \<or> c = 0x000A \<or> c = 0x000B \<or> c = 0x000C \<or> c = 0x000D \<or>
     c = 0x0020 \<or> c = 0x00A0 \<or> c = 0x1680 \<or> (0x2000 \<le> c \<and> c \<le> 0x200A) \<or>
     c = 0x2028 \<or> c = 0x2029 \<or> c = 0x202F \<or> c = 0x205F \<or> c = 0x3000 \<or>
     c = 0xFEFF"

definition trim :: "jsstring \<Rightarrow> jsstring" where
  "trim s = rev (dropWhile isWhiteSpace (rev (dropWhile isWhiteSpace s)))"


section \<open>State, events and the calls a handler makes\<close>

text \<open>
  The two \<open>useState\<close> cells of \<open>App\<close>: \<open>inputValue\<close> starts as \<open>''\<close>, \<open>items\<close> as \<open>[]\<close>.
\<close>

record app_state =
  inputValue :: jsstring
  items :: "jsstring list"

definition initial :: app_state where
  "initial = \<lparr>inputValue = [], items = []\<rparr>"

text \<open>The parts of the browser event the handlers touch.\<close>

record event =
  target_value :: jsstring
  defaultPrevented :: bool

text \<open>
  A handler runs against the state of the render that created it (the values \<open>inputValue\<close>
  and \<open>items\<close> of its closure). Each call it makes is carried out on a \<open>run\<close>: the event
  object, the state the next render will see, and the calls made so far in program order.
\<close>

datatype call =
    PreventDefault
  | Trim jsstring
  | SetItems "jsstring list"
  | SetInputValue jsstring

record run =
  ev :: event
  pending :: app_state
  calls :: "call list"

definition start :: "app_state \<Rightarrow> event \<Rightarrow> run" where
  "start st e = \<lparr>ev = e, pending = st, calls = []\<rparr>"

definition preventDefault :: "run \<Rightarrow> run" where
  "preventDefault r =
     r\<lparr>ev := (ev r)\<lparr>defaultPrevented := True\<rparr>, calls := calls r @ [PreventDefault]\<rparr>"

definition call_trim :: "jsstring \<Rightarrow> run \<Rightarrow> jsstring \<times> run" where
  "call_trim s r = (trim s, r\<lparr>calls := calls r @ [Trim s]\<rparr>)"

definition setItems :: "jsstring list \<Rightarrow> run \<Rightarrow> run" where
  "setItems v r = r\<lparr>pending := (pending r)\<lparr>items := v\<rparr>, calls := calls r @ [SetItems v]\<rparr>"

definition setInputValue :: "jsstring \<Rightarrow> run \<Rightarrow> run" where
  "setInputValue v r =
     r\<lparr>pending := (pending r)\<lparr>inputValue := v\<rparr>, calls := calls r @ [SetInputValue v]\<rparr>"


section \<open>The handlers of App\<close>

text \<open>\<open>handleChange\<close>: \<open>setInputValue(event.target.value)\<close>.\<close>

definition handleChange :: "app_state \<Rightarrow> event \<Rightarrow> run" where
  "handleChange st event = setInputValue (target_value event) (start st event)"

text \<open>
  \<open>handleSubmit\<close>: \<open>event.preventDefault()\<close>, then, if \<open>inputValue.trim() !== ''\<close>,
  \<open>setItems([...items, inputValue])\<close> and \<open>setInputValue('')\<close>.
\<close>

definition handleSubmit :: "app_state \<Rightarrow> event \<Rightarrow> run" where
  "handleSubmit st event =
     (let r1 = preventDefault (start st event);
          (trimmed, r2) = call_trim (inputValue st) r1
      in if trimmed \<noteq> []
         then setInputValue [] (setItems (items st @ [inputValue st]) r2)
         else r2)"

text \<open>
  The two transitions of the application: an input-change event carrying the text of the
  input control, and a form-submission event (its target is the form; the handler does not
  read it).
\<close>

datatype action = OnChange jsstring | OnSubmit

fun step :: "app_state \<Rightarrow> action \<Rightarrow> app_state" where
  "step st (OnChange newText) =
     pending (handleChange st \<lparr>target_value = newText, defaultPrevented = False\<rparr>)"
| "step st OnSubmit =
     pending (handleSubmit st \<lparr>target_value = [], defaultPrevented = False\<rparr>)"

definition run_actions :: "app_state \<Rightarrow> action list \<Rightarrow> app_state" where
  "run_actions st as = foldl step st as"


section \<open>Rendering\<close>

text \<open>
  What a component returns: text, a host element with its attributes and children, or a
  component element with its \<open>key\<close> and what the component renders to.
\<close>

datatype handler = HandleChange | HandleSubmit

datatype attr_value = Lit string | Dyn jsstring | Handler handler

datatype vdom =
    Text jsstring
  | Element string "(string \<times> attr_value) list" "vdom list"
  | Component string "nat option" vdom

text \<open>\<open>ListItem\<close>: an \<open>li\<close> whose only child is \<open>{item}\<close>.\<close>

definition ListItem :: "jsstring \<Rightarrow> vdom" where
  "ListItem item =
     Element ''li''
       [(''className'',
         Lit ''bg-gray-50 p-3 rounded-md shadow-sm text-gray-700 flex items-center justify-between'')]
       [Text item]"

text \<open>\<open>Array.prototype.map\<close> with a callback of the element and its index.\<close>

fun map_from :: "nat \<Rightarrow> ('a \<Rightarrow> nat \<Rightarrow> 'b) \<Rightarrow> 'a list \<Rightarrow> 'b list" where
  "map_from index f [] = []"
| "map_from index f (x # xs) = f x index # map_from (Suc index) f xs"

definition array_map :: "('a \<Rightarrow> nat \<Rightarrow> 'b) \<Rightarrow> 'a list \<Rightarrow> 'b list" where
  "array_map f xs = map_from 0 f xs"

text \<open>
  \<open>List\<close>: a \<open>ul\<close> whose children are
  \<open>items.map((item, index) => <ListItem key={index} item={item} />)\<close>.
\<close>

definition List :: "jsstring list \<Rightarrow> vdom" where
  "List its =
     Element ''ul'' [(''className'', Lit ''list-none p-0 space-y-2'')]
       (array_map (\<lambda>item index. Component ''ListItem'' (Some index) (ListItem item)) its)"

text \<open>
  What \<open>App\<close> returns. A class name written over several lines reaches the element with
  each line break and its indentation as one space.
\<close>

definition App :: "app_state \<Rightarrow> vdom" where
  "App st =
     Element ''div'' []
      [Element ''div'' []
        [Element ''h1''
           [(''className'', Lit ''text-3xl font-bold text-blue-800 mb-6 text-center'')]
           [Text (js ''My Awesome List'')],
         Element ''form''
           [(''onSubmit'', Handler HandleSubmit), (''className'', Lit ''flex gap-2 mb-6'')]
           [Element ''input''
              [(''type'', Lit ''text''),
               (''value'', Dyn (inputValue st)),
               (''onChange'', Handler HandleChange),
               (''placeholder'', Lit ''Enter a new item...''),
               (''className'',
                Lit ''flex-grow p-3 border border-gray-300 rounded-md focus:outline-none focus:ring-2 focus:ring-blue-500'')]
              [],
            Element ''button''
              [(''type'', Lit ''submit''),
               (''className'',
                Lit ''px-5 py-3 bg-blue-600 text-white rounded-md font-semibold hover:bg-blue-700 focus:outline-none focus:ring-2 focus:ring-blue-500 focus:ring-offset-2 transition-colors'')]
              [Text (js ''Add'')]],
         (if length (items st) > 0
          then Component ''List'' None (List (items st))
          else Element ''p'' [(''className'', Lit ''text-center text-gray-500'')]
                 [Text (js ''No items yet. Add something!'')])]]"

subsection \<open>Reading a rendered tree\<close>

text \<open>The children of a host element.\<close>

fun child_nodes :: "vdom \<Rightarrow> vdom list" where
  "child_nodes (Element _ _ cs) = cs"
| "child_nodes _ = []"

text \<open>The place in the output of \<open>App\<close> that follows the form.\<close>

fun list_area :: "vdom \<Rightarrow> vdom option" where
  "list_area (Element _ _ [Element _ _ [_, _, v]]) = Some v"
| "list_area _ = None"

text \<open>Whether a host element with the given tag occurs anywhere in a tree.\<close>

fun contains_tag :: "string \<Rightarrow> vdom \<Rightarrow> bool" where
  "contains_tag t (Text _) = False"
| "contains_tag t (Element g _ cs) = (g = t \<or> list_ex (contains_tag t) cs)"
| "contains_tag t (Component _ _ v) = contains_tag t v"

text \<open>The text a tree shows: its text nodes, in document order.\<close>

fun textContent :: "vdom \<Rightarrow> jsstring" where
  "textContent (Text s) = s"
| "textContent (Element _ _ cs) = concat (map textContent cs)"
| "textContent (Component _ _ v) = textContent v"


section \<open>The handlers, unfolded\<close>

lemma handleChange_run:
  "handleChange st e =
     \<lparr>ev = e, pending = st\<lparr>inputValue := target_value e\<rparr>,
      calls = [SetInputValue (target_value e)]\<rparr>"
  by (simp add: handleChange_def setInputValue_def start_def)

lemma handleSubmit_accept:
  assumes "trim (inputValue st) \<noteq> []"
  shows "handleSubmit st e =
     \<lparr>ev = e\<lparr>defaultPrevented := True\<rparr>,
      pending = \<lparr>inputValue = [], items = items st @ [inputValue st]\<rparr>,
      calls = [PreventDefault, Trim (inputValue st),
               SetItems (items st @ [inputValue st]), SetInputValue []]\<rparr>"
  using assms
  by (simp add: handleSubmit_def preventDefault_def call_trim_def setItems_def
      setInputValue_def start_def)

lemma handleSubmit_reject:
  assumes "trim (inputValue st) = []"
  shows "handleSubmit st e =
     \<lparr>ev = e\<lparr>defaultPrevented := True\<rparr>, pending = st,
      calls = [PreventDefault, Trim (inputValue st)]\<rparr>"
  using assms
  by (simp add: handleSubmit_def preventDefault_def call_trim_def start_def)

lemma trim_js_eval:
  "trim (js ''Milk'') \<noteq> []" "trim (js ''Eggs'') \<noteq> []" "trim (js ''  Milk '') \<noteq> []"
  "trim (js '''') = []" "trim (js ''   '') = []" "trim [0x0009] = []" "trim (js ''  '') = []"
  by (simp_all add: trim_def js_def isWhiteSpace_def)


section \<open>Submitting a draft\<close>

text \<open>
  C1. For every string \<open>s\<close> whose trimmed form is not empty, a submit while the draft is
  \<open>s\<close> appends exactly \<open>s\<close>, untrimmed, as the last element of the item list and resets
  the draft to the empty string.
\<close>

theorem submit_appends_untrimmed:
  assumes "trim s \<noteq> []" and "inputValue st = s"
  shows "items (pending (handleSubmit st e)) = items st @ [s]
       \<and> last (items (pending (handleSubmit st e))) = s
       \<and> inputValue (pending (handleSubmit st e)) = []
       \<and> step st OnSubmit = \<lparr>inputValue = [], items = items st @ [s]\<rparr>"
  using assms by (simp add: handleSubmit_accept)

theorem submit_appends_untrimmed_witness:
  "trim (js ''  Milk '') \<noteq> []
   \<and> items (pending (handleSubmit \<lparr>inputValue = js ''  Milk '', items = [js ''Eggs'']\<rparr>
        \<lparr>target_value = [], defaultPrevented = False\<rparr>)) = [js ''Eggs'', js ''  Milk '']
   \<and> inputValue (pending (handleSubmit \<lparr>inputValue = js ''  Milk '', items = [js ''Eggs'']\<rparr>
        \<lparr>target_value = [], defaultPrevented = False\<rparr>)) = []"
  using submit_appends_untrimmed
    [of "js ''  Milk ''" "\<lparr>inputValue = js ''  Milk '', items = [js ''Eggs'']\<rparr>"
        "\<lparr>target_value = [], defaultPrevented = False\<rparr>"]
  by (simp add: trim_js_eval)

text \<open>
  C2. For every string \<open>s\<close> whose trimmed form is empty (the empty string, only spaces, a
  tab), a submit while the draft is \<open>s\<close> leaves the item list and the draft as they are:
  the handler calls no state setter, and it has no failing outcome.
\<close>

theorem submit_blank_is_noop:
  assumes "trim s = []" and "inputValue st = s"
  shows "pending (handleSubmit st e) = st
       \<and> items (pending (handleSubmit st e)) = items st
       \<and> inputValue (pending (handleSubmit st e)) = s
       \<and> calls (handleSubmit st e) = [PreventDefault, Trim s]
       \<and> step st OnSubmit = st"
  using assms by (simp add: handleSubmit_reject)

theorem submit_blank_is_noop_witness:
  "trim (js '''') = [] \<and> trim (js ''   '') = [] \<and> trim [0x0009] = []
   \<and> step \<lparr>inputValue = js '''', items = [js ''Milk'']\<rparr> OnSubmit
       = \<lparr>inputValue = js '''', items = [js ''Milk'']\<rparr>
   \<and> step \<lparr>inputValue = js ''   '', items = [js ''Milk'']\<rparr> OnSubmit
       = \<lparr>inputValue = js ''   '', items = [js ''Milk'']\<rparr>
   \<and> step \<lparr>inputValue = [0x0009], items = [js ''Milk'']\<rparr> OnSubmit
       = \<lparr>inputValue = [0x0009], items = [js ''Milk'']\<rparr>"
  using submit_blank_is_noop
      [of "js ''''" "\<lparr>inputValue = js '''', items = [js ''Milk'']\<rparr>"
          "\<lparr>target_value = [], defaultPrevented = False\<rparr>"]
    submit_blank_is_noop
      [of "js ''   ''" "\<lparr>inputValue = js ''   '', items = [js ''Milk'']\<rparr>"
          "\<lparr>target_value = [], defaultPrevented = False\<rparr>"]
    submit_blank_is_noop
      [of "[0x0009]" "\<lparr>inputValue = [0x0009], items = [js ''Milk'']\<rparr>"
          "\<lparr>target_value = [], defaultPrevented = False\<rparr>"]
  by (simp add: trim_js_eval)


section \<open>Typing into the input\<close>

text \<open>
  C7. For every text and every state, the change transition sets the draft to the new text,
  whatever it is, and leaves the item list as it was; \<open>setInputValue\<close> is the only call.
\<close>

theorem change_sets_draft_only:
  "inputValue (pending (handleChange st e)) = target_value e
   \<and> items (pending (handleChange st e)) = items st
   \<and> calls (handleChange st e) = [SetInputValue (target_value e)]
   \<and> step st (OnChange newText) = \<lparr>inputValue = newText, items = items st\<rparr>"
  by (simp add: handleChange_run)


section \<open>The default action of the form\<close>

text \<open>
  C8. Every submit, accepted or rejected, cancels the default action of the event, and
  \<open>preventDefault\<close> is the first call of the handler, ahead of the \<open>trim\<close> of the check.
\<close>

theorem submit_prevents_default_first:
  "defaultPrevented (ev (handleSubmit st e))
   \<and> take 2 (calls (handleSubmit st e)) = [PreventDefault, Trim (inputValue st)]
   \<and> PreventDefault \<notin> set (drop 1 (calls (handleSubmit st e)))"
proof (cases "trim (inputValue st) = []")
  case True
  then show ?thesis by (simp add: handleSubmit_reject)
next
  case False
  then show ?thesis by (simp add: handleSubmit_accept)
qed

section \<open>Sequences of transitions\<close>

text \<open>No stored item is blank: the property every transition keeps.\<close>

lemma step_keeps_items_nonblank:
  assumes "list_all (\<lambda>x. trim x \<noteq> []) (items st)"
  shows "list_all (\<lambda>x. trim x \<noteq> []) (items (step st a))"
proof (cases a)
  case (OnChange newText)
  with assms show ?thesis by (simp add: handleChange_run)
next
  case OnSubmit
  show ?thesis
  proof (cases "trim (inputValue st) = []")
    case True
    with assms OnSubmit show ?thesis by (simp add: handleSubmit_reject)
  next
    case False
    with assms OnSubmit show ?thesis by (simp add: handleSubmit_accept)
  qed
qed

lemma run_actions_keeps_items_nonblank:
  "list_all (\<lambda>x. trim x \<noteq> []) (items st) \<Longrightarrow>
   list_all (\<lambda>x. trim x \<noteq> []) (items (run_actions st as))"
  unfolding run_actions_def
proof (induction as arbitrary: st)
  case Nil
  then show ?case by simp
next
  case (Cons a as)
  from Cons.prems have "list_all (\<lambda>x. trim x \<noteq> []) (items (step st a))"
    by (rule step_keeps_items_nonblank)
  then show ?case using Cons.IH by simp
qed

lemma type_and_submit:
  assumes "trim s \<noteq> []"
  shows "step (step st (OnChange s)) OnSubmit = \<lparr>inputValue = [], items = items st @ [s]\<rparr>"
  using assms by (simp add: handleChange_run handleSubmit_accept)

lemma type_and_submit_blank:
  assumes "trim s = []"
  shows "step (step st (OnChange s)) OnSubmit = \<lparr>inputValue = s, items = items st\<rparr>"
  using assms by (simp add: handleChange_run handleSubmit_reject)

text \<open>
  C3. From the initial state (empty draft, empty item list), every state reached by change
  and submit transitions has an item list without an element that is empty after trimming;
  the draft itself can hold such a value.
\<close>

theorem reachable_items_nonblank:
  "(\<forall>x \<in> set (items (run_actions initial as)). trim x \<noteq> [])
   \<and> (\<exists>bs. inputValue (run_actions initial bs) \<noteq> []
           \<and> trim (inputValue (run_actions initial bs)) = [])"
proof
  have "list_all (\<lambda>x. trim x \<noteq> []) (items initial)"
    by (simp add: initial_def)
  then have "list_all (\<lambda>x. trim x \<noteq> []) (items (run_actions initial as))"
    by (rule run_actions_keeps_items_nonblank)
  then show "\<forall>x \<in> set (items (run_actions initial as)). trim x \<noteq> []"
    by (simp add: list_all_iff)
next
  have "inputValue (run_actions initial [OnChange (js ''  '')]) = js ''  ''"
    by (simp add: run_actions_def handleChange_run)
  moreover have "js ''  '' \<noteq> []"
    by (simp add: js_def)
  ultimately show "\<exists>bs. inputValue (run_actions initial bs) \<noteq> []
      \<and> trim (inputValue (run_actions initial bs)) = []"
    using trim_js_eval(7) by metis
qed

theorem reachable_items_nonblank_witness:
  "items (run_actions initial
     [OnChange (js ''Milk''), OnSubmit, OnChange (js ''  ''), OnSubmit,
      OnChange (js ''Eggs''), OnSubmit]) = [js ''Milk'', js ''Eggs'']
   \<and> trim (js ''Milk'') \<noteq> [] \<and> trim (js ''Eggs'') \<noteq> []"
proof -
  have run: "run_actions initial
     [OnChange (js ''Milk''), OnSubmit, OnChange (js ''  ''), OnSubmit,
      OnChange (js ''Eggs''), OnSubmit] = \<lparr>inputValue = [], items = [js ''Milk'', js ''Eggs'']\<rparr>"
    unfolding run_actions_def foldl_Cons foldl_Nil
    by (simp only: type_and_submit type_and_submit_blank trim_js_eval not_False_eq_True)
       (simp add: initial_def)
  from reachable_items_nonblank
    [of "[OnChange (js ''Milk''), OnSubmit, OnChange (js ''  ''), OnSubmit,
          OnChange (js ''Eggs''), OnSubmit]"]
  show ?thesis unfolding run by simp
qed

text \<open>
  C4. For valid \<open>s1\<close> and \<open>s2\<close>, typing and submitting \<open>s1\<close> and then \<open>s2\<close> leaves the
  item list as it was with \<open>s1\<close> and \<open>s2\<close> after it, in that order: from an empty list the
  result is \<open>[s1, s2]\<close>, which for different strings is not \<open>[s2, s1]\<close>. Every accepted
  submit keeps the earlier elements in place and adds the draft at the end.
\<close>

theorem submits_keep_order:
  assumes "trim s1 \<noteq> []" and "trim s2 \<noteq> []"
  shows "items (run_actions st [OnChange s1, OnSubmit, OnChange s2, OnSubmit])
           = items st @ [s1, s2]
       \<and> items (run_actions initial [OnChange s1, OnSubmit, OnChange s2, OnSubmit]) = [s1, s2]
       \<and> (s1 \<noteq> s2 \<longrightarrow>
            items (run_actions initial [OnChange s1, OnSubmit, OnChange s2, OnSubmit])
              \<noteq> [s2, s1])
       \<and> take (length (items st)) (items (step (step st (OnChange s1)) OnSubmit)) = items st"
proof -
  have twice: "run_actions st' [OnChange s1, OnSubmit, OnChange s2, OnSubmit]
      = \<lparr>inputValue = [], items = items st' @ [s1, s2]\<rparr>" for st'
    unfolding run_actions_def foldl_Cons foldl_Nil
    by (simp only: type_and_submit [OF assms(1)] type_and_submit [OF assms(2)]) simp
  have once: "items (step (step st (OnChange s1)) OnSubmit) = items st @ [s1]"
    by (simp only: type_and_submit [OF assms(1)]) simp
  show ?thesis
    unfolding twice once by (auto simp: initial_def)
qed

theorem submits_keep_order_witness:
  "trim (js ''Milk'') \<noteq> [] \<and> trim (js ''Eggs'') \<noteq> []
   \<and> items (run_actions initial
        [OnChange (js ''Milk''), OnSubmit, OnChange (js ''Eggs''), OnSubmit])
      = [js ''Milk'', js ''Eggs'']"
proof -
  have valid: "trim (js ''Milk'') \<noteq> []" "trim (js ''Eggs'') \<noteq> []"
    by (rule trim_js_eval)+
  from submits_keep_order [OF valid, of initial] valid show ?thesis
    by blast
qed

section \<open>What is rendered\<close>

lemma length_map_from: "length (map_from index f xs) = length xs"
  by (induction xs arbitrary: index) simp_all

lemma nth_map_from:
  "k < length xs \<Longrightarrow> map_from index f xs ! k = f (xs ! k) (index + k)"
proof (induction xs arbitrary: index k)
  case Nil
  then show ?case by simp
next
  case (Cons x xs)
  show ?case
  proof (cases k)
    case 0
    then show ?thesis by simp
  next
    case (Suc j)
    with Cons.prems have "j < length xs" by simp
    from Cons.IH [OF this, of "Suc index"] Suc show ?thesis by simp
  qed
qed

lemma textContent_map_from:
  "map textContent (map_from index (\<lambda>item i. Component n (Some i) (ListItem item)) xs) = xs"
  by (induction xs arbitrary: index) (simp_all add: ListItem_def)

lemma list_area_App:
  "list_area (App st) =
     Some (if length (items st) > 0
           then Component ''List'' None (List (items st))
           else Element ''p'' [(''className'', Lit ''text-center text-gray-500'')]
                  [Text (js ''No items yet. Add something!'')])"
  by (simp add: App_def)

text \<open>
  C5. The rendering rule of the application: a non-empty item list is shown as the \<open>List\<close>
  component applied to it; an empty one as the fixed placeholder paragraph, and then no list
  container occurs anywhere in the output.
\<close>

theorem App_shows_list_or_placeholder:
  "(items st \<noteq> [] \<longrightarrow>
      list_area (App st) = Some (Component ''List'' None (List (items st)))
      \<and> contains_tag ''ul'' (App st))
   \<and> (items st = [] \<longrightarrow>
      list_area (App st) =
        Some (Element ''p'' [(''className'', Lit ''text-center text-gray-500'')]
                [Text (js ''No items yet. Add something!'')])
      \<and> \<not> contains_tag ''ul'' (App st))"
  by (simp add: App_def List_def)

theorem App_shows_list_or_placeholder_witness:
  "items initial = []
   \<and> list_area (App initial) =
        Some (Element ''p'' [(''className'', Lit ''text-center text-gray-500'')]
                [Text (js ''No items yet. Add something!'')])
   \<and> \<not> contains_tag ''ul'' (App initial)
   \<and> items \<lparr>inputValue = [], items = [js ''Milk'']\<rparr> \<noteq> []
   \<and> list_area (App \<lparr>inputValue = [], items = [js ''Milk'']\<rparr>) =
        Some (Component ''List'' None (List [js ''Milk'']))"
  using App_shows_list_or_placeholder [of initial]
    App_shows_list_or_placeholder [of "\<lparr>inputValue = [], items = [js ''Milk'']\<rparr>"]
  by (simp add: initial_def)

text \<open>
  C6. For every sequence of strings, \<open>List\<close> gives a list container with exactly one
  \<open>ListItem\<close> rendering per element, in the order of the input, each keyed by the position
  of its element.
\<close>

theorem List_one_item_per_element:
  "length (child_nodes (List xs)) = length xs
   \<and> (\<forall>i < length xs.
         child_nodes (List xs) ! i = Component ''ListItem'' (Some i) (ListItem (xs ! i)))"
  by (simp add: List_def array_map_def length_map_from nth_map_from)

theorem List_one_item_per_element_witness:
  "length (child_nodes (List [js ''Milk'', js ''Eggs''])) = 2
   \<and> child_nodes (List [js ''Milk'', js ''Eggs'']) ! 0
       = Component ''ListItem'' (Some 0) (ListItem (js ''Milk''))
   \<and> child_nodes (List [js ''Milk'', js ''Eggs'']) ! 1
       = Component ''ListItem'' (Some 1) (ListItem (js ''Eggs''))"
proof -
  note t = List_one_item_per_element [of "[js ''Milk'', js ''Eggs'']"]
  from t have len: "length (child_nodes (List [js ''Milk'', js ''Eggs''])) = 2"
    by simp
  from t have "child_nodes (List [js ''Milk'', js ''Eggs'']) ! 0
      = Component ''ListItem'' (Some 0) (ListItem ([js ''Milk'', js ''Eggs''] ! 0))"
    by (simp del: nth_Cons_0)
  moreover from t have "(1::nat) < length [js ''Milk'', js ''Eggs''] \<longrightarrow>
      child_nodes (List [js ''Milk'', js ''Eggs'']) ! 1
      = Component ''ListItem'' (Some 1) (ListItem ([js ''Milk'', js ''Eggs''] ! 1))"
    by blast
  ultimately show ?thesis using len by simp
qed

text \<open>
  C9. Rendering is a function of the item list: two renders of states with the same item
  list, whatever the draft is at either time, show the same output in the list area. So a
  render after more typing repeats the list area of the render before it.
\<close>

theorem render_same_items_same_output:
  assumes "items s2 = items s1"
  shows "list_area (App s2) = list_area (App s1)
       \<and> list_area (App (step s1 (OnChange newText))) = list_area (App s1)"
  using assms by (simp add: list_area_App handleChange_run)

theorem render_same_items_same_output_witness:
  "items \<lparr>inputValue = js ''Eg'', items = [js ''Milk'']\<rparr>
     = items \<lparr>inputValue = [], items = [js ''Milk'']\<rparr>
   \<and> list_area (App \<lparr>inputValue = js ''Eg'', items = [js ''Milk'']\<rparr>)
     = list_area (App \<lparr>inputValue = [], items = [js ''Milk'']\<rparr>)"
  using render_same_items_same_output
    [of "\<lparr>inputValue = js ''Eg'', items = [js ''Milk'']\<rparr>"
        "\<lparr>inputValue = [], items = [js ''Milk'']\<rparr>"]
  by simp

text \<open>
  C10. \<open>ListItem\<close> shows its string as it is: the only child of the row is the text \<open>s\<close>,
  so the text of the row is \<open>s\<close>, and the rows of a rendered list read, in order, as the
  strings of the list.
\<close>

theorem ListItem_shows_item_verbatim:
  "child_nodes (ListItem s) = [Text s]
   \<and> textContent (ListItem s) = s
   \<and> map textContent (child_nodes (List xs)) = xs"
proof (intro conjI)
  show "child_nodes (ListItem s) = [Text s]"
    by (simp add: ListItem_def)
  show "textContent (ListItem s) = s"
    by (simp add: ListItem_def)
  show "map textContent (child_nodes (List xs)) = xs"
    by (simp add: List_def array_map_def textContent_map_from)
qed

end
